theory Spec2Isabelle
  imports Main
begin

section \<open>pysrpm.convert: dependency markers and version specifiers as RPM conditions\<close>

text \<open>
  A shallow embedding of \<^verbatim>\<open>src/pysrpm/convert.py\<close>. Python strings are \<open>string\<close>
  (one \<open>char\<close> per code point, so the model covers code points below 256), dictionaries
  are maps, exceptions are the \<open>Inl\<close> side of a sum, and what the module takes from
  outside (the \<^verbatim>\<open>packaging.markers.Marker\<close> class and the builtin \<^verbatim>\<open>str.format\<close>) is a
  parameter of the functions that use it.
\<close>

subsection \<open>Python values and builtins\<close>

text \<open>Exceptions raised inside the external library or by \<^verbatim>\<open>str.format\<close>.\<close>

datatype lib_error =
    InvalidMarker
  | UndefinedComparison
  | UndefinedEnvironmentName
  | FormatError

text \<open>
  Exceptions leaving the module. The three \<^verbatim>\<open>ValueError\<close>s of the leaf translator are
  kept apart by their message:
  \<^item> \<open>UnsupportedOperatorArch op\<close> is
    \<^verbatim>\<open>ValueError(f'Unsupported operator {operator} for platform_machine')\<close>;
  \<^item> \<open>UnsupportedMarker var\<close> is \<^verbatim>\<open>ValueError(f'Unsupported marker {marker[0].value}')\<close>;
  \<^item> \<open>UnsupportedOperatorMarker op marker\<close> is
    \<^verbatim>\<open>ValueError(f'Unsupported operator {operator} for dependency marker {marker}')\<close>.
\<close>

datatype error =
    UnsupportedOperatorArch string
  | UnsupportedMarker string
  | UnsupportedOperatorMarker string "string \<times> string \<times> string"
  | KeyError string
  | TypeError
  | External lib_error

text \<open>A value of the environment map: one string, or a list of candidate strings.\<close>

datatype envval = Str string | Lst "string list"

type_synonym environment = "string \<rightharpoonup> envval"

type_synonym templates = "string \<rightharpoonup> string"

text \<open>
  What the module imports. \<open>Marker text\<close> is the constructor call \<^verbatim>\<open>Marker(text)\<close>: it
  fails on a text that does not parse, and otherwise gives the object's \<^verbatim>\<open>evaluate\<close>
  method, which takes an environment. \<open>format_arch t a\<close> is \<^verbatim>\<open>t.format(arch=a)\<close>.
\<close>

record externals =
  Marker :: "string \<Rightarrow> lib_error + (environment \<Rightarrow> lib_error + bool)"
  format_arch :: "string \<Rightarrow> string \<Rightarrow> lib_error + string"

text \<open>What \<^verbatim>\<open>simplify_marker_to_rpm_condition\<close> returns: a string, a boolean, or
  \<^verbatim>\<open>None\<close> when no branch of its type dispatch applies.\<close>

datatype rval = RNone | RBool bool | RStr string

text \<open>
  The marker argument, by its Python type: \<^verbatim>\<open>None\<close>, a \<^verbatim>\<open>Marker\<close> object (with its
  \<^verbatim>\<open>_markers\<close> list), a \<^verbatim>\<open>str\<close>, a \<^verbatim>\<open>bool\<close>, a tuple (the \<^verbatim>\<open>.value\<close> of its three
  components) or a list.
\<close>

datatype marker =
    NoMarker
  | MarkerObj "marker list"
  | Token string
  | Const bool
  | Leaf string string string
  | Group "marker list"

text \<open>An element of the list \<^verbatim>\<open>dnf\<close>: \<^verbatim>\<open>True\<close> or a promoted single item, or a list.\<close>

datatype clause = Single rval | Multi "rval list"

text \<open>A list comprehension over a call that may raise: the first exception wins.\<close>

fun map_result :: "('a \<Rightarrow> 'e + 'b) \<Rightarrow> 'a list \<Rightarrow> 'e + 'b list" where
  "map_result f [] = Inr []"
| "map_result f (x # xs) =
     (case f x of
        Inl e \<Rightarrow> Inl e
      | Inr y \<Rightarrow> (case map_result f xs of Inl e \<Rightarrow> Inl e | Inr ys \<Rightarrow> Inr (y # ys)))"

text \<open>\<^verbatim>\<open>sep.join(xs)\<close> on a list of strings.\<close>

fun py_join :: "string \<Rightarrow> string list \<Rightarrow> string" where
  "py_join sep [] = []"
| "py_join sep [x] = x"
| "py_join sep (x # y # ys) = x @ sep @ py_join sep (y # ys)"

text \<open>\<^verbatim>\<open>s.rstrip(chars)\<close>: every trailing character that occurs in \<open>chars\<close> is removed.\<close>

definition py_rstrip :: "string \<Rightarrow> string \<Rightarrow> string" where
  "py_rstrip chars s = rev (dropWhile (\<lambda>c. c \<in> set chars) (rev s))"

text \<open>\<^verbatim>\<open>str.isspace\<close> on one code point below 256.\<close>

definition py_isspace :: "char \<Rightarrow> bool" where
  "py_isspace c \<longleftrightarrow>
     c \<in> set [CHR 0x09, CHR 0x0A, CHR 0x0B, CHR 0x0C, CHR 0x0D,
              CHR 0x1C, CHR 0x1D, CHR 0x1E, CHR 0x1F, CHR 0x20, CHR 0x85, CHR 0xA0]"

text \<open>\<^verbatim>\<open>s.split()\<close>: the maximal runs of non-whitespace, \<open>cur\<close> being the run read so far.\<close>

fun split_ws :: "string \<Rightarrow> string \<Rightarrow> string list" where
  "split_ws cur [] = (if cur = [] then [] else [cur])"
| "split_ws cur (c # cs) =
     (if py_isspace c then (if cur = [] then split_ws [] cs else cur # split_ws [] cs)
      else split_ws (cur @ [c]) cs)"

definition py_split :: "string \<Rightarrow> string list" where
  "py_split s = split_ws [] s"

text \<open>\<^verbatim>\<open>xs[start:stop]\<close> for a start that is not negative; \<open>None\<close> is no stop.\<close>

fun py_slice :: "'a list \<Rightarrow> nat \<Rightarrow> nat option \<Rightarrow> 'a list" where
  "py_slice xs start None = drop start xs"
| "py_slice xs start (Some stop) = take (stop - start) (drop start xs)"

subsection \<open>The operator table\<close>

definition rpm_operator_correspondance :: "string \<rightharpoonup> string" where
  "rpm_operator_correspondance =
     map_of [(''=='', ''=''), (''==='', ''=''), (''<'', ''<''),
             (''<='', ''<=''), (''>='', ''>=''), (''>'', ''>'')]"

subsection \<open>The leaf translator\<close>

text \<open>
  \<^verbatim>\<open>_single_marker_to_rpm_condition(marker, templates)\<close>; the marker is the triple of
  \<^verbatim>\<open>marker[0].value\<close>, \<^verbatim>\<open>marker[1].value\<close> and \<^verbatim>\<open>marker[2].value\<close>. The function is given
  in the three parts it has in the source.
\<close>

text \<open>Lines 26 to 34: the branch for \<^verbatim>\<open>platform_machine\<close>.\<close>

definition arch_condition :: "externals \<Rightarrow> string \<Rightarrow> string \<Rightarrow> templates \<Rightarrow> error + string" where
  "arch_condition X operator version templates =
     (case templates ''python_arch'' of
        None \<Rightarrow> Inl (KeyError ''python_arch'')
      | Some arch_template \<Rightarrow>
          if operator = ''=='' then
            (case format_arch X arch_template version of
               Inl e \<Rightarrow> Inl (External e)
             | Inr s \<Rightarrow> Inr (''if '' @ s))
          else if operator = ''!='' then
            (case format_arch X arch_template version of
               Inl e \<Rightarrow> Inl (External e)
             | Inr s \<Rightarrow> Inr (''without '' @ s))
          else if operator = ''in'' then
            (case map_result (format_arch X arch_template) (py_split version) of
               Inl e \<Rightarrow> Inl (External e)
             | Inr ss \<Rightarrow> Inr (''if ('' @ py_join '' or '' ss @ '')''))
          else Inl (UnsupportedOperatorArch operator))"

text \<open>Lines 36 to 41: the package whose version stands for the variable.\<close>

definition marker_package :: "string \<Rightarrow> templates \<Rightarrow> error + string" where
  "marker_package var templates =
     (if var \<in> {''python_full_version'', ''python_version'', ''implementation_version''}
      then (case templates ''python_abi'' of
              None \<Rightarrow> Inl (KeyError ''python_abi'')
            | Some p \<Rightarrow> Inr p)
      else if var = ''platform_release'' then Inr ''kernel''
      else Inl (UnsupportedMarker var))"

text \<open>Lines 43 to 53: the comparison of that package with the version.\<close>

definition version_condition :: "string \<Rightarrow> string \<times> string \<times> string \<Rightarrow> error + string" where
  "version_condition package marker =
     (case marker of (var, operator, version) \<Rightarrow>
        (case rpm_operator_correspondance operator of
           Some rpm_op \<Rightarrow> Inr (package @ '' '' @ rpm_op @ '' '' @ version)
         | None \<Rightarrow>
             if operator = ''~='' then
               Inr (''('' @ package @ '' >= '' @ version @ '' and '' @ package @ '' < ''
                    @ version @ ''^next)'')
             else if operator = ''!='' then
               Inr (''('' @ package @ '' < '' @ version @ '' or '' @ package @ '' > ''
                    @ version @ '')'')
             else if operator = ''in'' then
               Inr (''('' @ py_join '' or ''
                      (map (\<lambda>each_version. package @ '' = '' @ each_version)
                         (py_split version)) @ '')'')
             else Inl (UnsupportedOperatorMarker operator marker)))"

definition single_marker_to_rpm_condition ::
  "externals \<Rightarrow> string \<times> string \<times> string \<Rightarrow> templates \<Rightarrow> error + string" where
  "single_marker_to_rpm_condition X marker templates =
     (case marker of (var, operator, version) \<Rightarrow>
        if var = ''platform_machine'' then arch_condition X operator version templates
        else
          (case marker_package var templates of
             Inl e \<Rightarrow> Inl e
           | Inr package \<Rightarrow> version_condition package marker))"

subsection \<open>The marker evaluator\<close>

text \<open>The text \<^verbatim>\<open>f'{marker[0].value} {marker[1].value} "{marker[2].value}"'\<close>.\<close>

definition marker_text :: "string \<Rightarrow> string \<Rightarrow> string \<Rightarrow> string" where
  "marker_text var operator val =
     var @ '' '' @ operator @ '' '' @ [CHR 0x22] @ val @ [CHR 0x22]"

text \<open>The branch for a tuple (lines 84 to 94 of the source).\<close>

definition simplify_leaf ::
  "externals \<Rightarrow> string \<Rightarrow> string \<Rightarrow> string \<Rightarrow> environment \<Rightarrow> templates \<Rightarrow> error + rval" where
  "simplify_leaf X var operator val environments templates =
     (case environments var of
        None \<Rightarrow> map_sum id RStr (single_marker_to_rpm_condition X (var, operator, val) templates)
      | Some candidates \<Rightarrow>
          (case Marker X (marker_text var operator val) of
             Inl e \<Rightarrow> Inl (External e)
           | Inr evaluator \<Rightarrow>
               (case
                  (case candidates of
                     Lst vals \<Rightarrow> map_result (\<lambda>v. evaluator (Map.empty(var \<mapsto> Str v))) vals
                   | Str _ \<Rightarrow> map_result evaluator [environments])
                of
                  Inl e \<Rightarrow> Inl (External e)
                | Inr evaluations \<Rightarrow>
                    if list_all (\<lambda>ev. ev) evaluations then Inr (RBool True)
                    else if list_all (\<lambda>ev. \<not> ev) evaluations then Inr (RBool False)
                    else if var = ''extras'' then Inr (RBool True)
                    else map_sum id RStr
                           (single_marker_to_rpm_condition X (var, operator, val) templates))))"

text \<open>Line 99: the positions of the \<^verbatim>\<open>'or'\<close> tokens of the list.\<close>

definition splits_of :: "marker list \<Rightarrow> nat list" where
  "splits_of marker = [n. (n, v) \<leftarrow> enumerate 0 marker, v = Token ''or'']"

text \<open>Lines 100 and 101: the runs between the \<^verbatim>\<open>'or'\<close>s, without \<^verbatim>\<open>'and'\<close> and
  \<^verbatim>\<open>True\<close>; \<open>prev\<close> and \<open>stop\<close> are the source's \<^verbatim>\<open>before\<close> and \<^verbatim>\<open>last\<close>.\<close>

definition and_clauses :: "marker list \<Rightarrow> rval list \<Rightarrow> rval list list" where
  "and_clauses marker simple_markers =
     (let splits = splits_of marker in
      [filter (\<lambda>mk. mk \<noteq> RStr ''and'' \<and> mk \<noteq> RBool True)
         (py_slice simple_markers (nat (prev + 1)) stop).
       (prev, stop) \<leftarrow> zip (- 1 # map int splits) (map Some splits @ [None])])"

text \<open>Line 102: clauses with a \<^verbatim>\<open>False\<close> go; an empty clause is \<^verbatim>\<open>True\<close>, a clause of one
  item is that item.\<close>

definition promote :: "rval list \<Rightarrow> clause" where
  "promote cl =
     (if cl = [] then Single (RBool True)
      else if length cl = 1 then Single (cl ! 0)
      else Multi cl)"

definition dnf_of :: "rval list list \<Rightarrow> clause list" where
  "dnf_of clauses = [promote cl. cl \<leftarrow> clauses, \<not> list_ex (\<lambda>ev. ev = RBool False) cl]"

text \<open>The items of a list as strings, when all of them are.\<close>

fun str_items :: "rval list \<Rightarrow> string list option" where
  "str_items [] = Some []"
| "str_items (RStr s # rs) = (case str_items rs of None \<Rightarrow> None | Some ss \<Rightarrow> Some (s # ss))"
| "str_items (_ # rs) = None"

text \<open>
  \<^verbatim>\<open>' and '.join(x)\<close> for an element \<open>x\<close> of \<^verbatim>\<open>dnf\<close>: a list must hold strings only; a
  string is iterated character by character; anything else is not iterable.
\<close>

definition join_and :: "clause \<Rightarrow> error + string" where
  "join_and x =
     (case x of
        Multi rs \<Rightarrow>
          (case str_items rs of None \<Rightarrow> Inl TypeError | Some ss \<Rightarrow> Inr (py_join '' and '' ss))
      | Single (RStr s) \<Rightarrow> Inr (py_join '' and '' (map (\<lambda>c. [c]) s))
      | Single _ \<Rightarrow> Inl TypeError)"

text \<open>The item \<^verbatim>\<open>' and '.join(mk) if type(mk) is list else mk\<close> of the generator on line 105,
  which \<^verbatim>\<open>' or '.join\<close> then requires to be a string.\<close>

definition or_item :: "clause \<Rightarrow> error + string" where
  "or_item mk =
     (case mk of
        Multi rs \<Rightarrow> join_and mk
      | Single (RStr s) \<Rightarrow> Inr s
      | Single _ \<Rightarrow> Inl TypeError)"

text \<open>Lines 103 to 105.\<close>

definition render_dnf :: "clause list \<Rightarrow> error + rval" where
  "render_dnf dnf =
     (if dnf = [] then Inr (RBool False)
      else if list_ex (\<lambda>cl. cl = Single (RBool True)) dnf then Inr (RBool True)
      else if length dnf = 1 then map_sum id RStr (join_and (dnf ! 0))
      else (case map_result or_item dnf of
              Inl e \<Rightarrow> Inl e
            | Inr ss \<Rightarrow> Inr (RStr (''('' @ py_join '' or '' ss @ '')''))))"

text \<open>The branch for a list, after its items have been simplified (lines 99 to 105).\<close>

definition reduce_group :: "marker list \<Rightarrow> rval list \<Rightarrow> error + rval" where
  "reduce_group marker simple_markers = render_dnf (dnf_of (and_clauses marker simple_markers))"

text \<open>
  \<^verbatim>\<open>simplify_marker_to_rpm_condition(marker, environments, templates)\<close>, with
  \<open>simplify_markers\<close> the comprehension of line 97.
\<close>

fun simplify_marker_to_rpm_condition ::
      "externals \<Rightarrow> marker \<Rightarrow> environment \<Rightarrow> templates \<Rightarrow> error + rval"
  and simplify_markers ::
      "externals \<Rightarrow> marker list \<Rightarrow> environment \<Rightarrow> templates \<Rightarrow> error + rval list" where
  "simplify_marker_to_rpm_condition X NoMarker environments templates = Inr (RBool True)"
| "simplify_marker_to_rpm_condition X (MarkerObj markers) environments templates =
     (case simplify_markers X markers environments templates of
        Inl e \<Rightarrow> Inl e
      | Inr simple_markers \<Rightarrow> reduce_group markers simple_markers)"
| "simplify_marker_to_rpm_condition X (Token s) environments templates =
     (if s \<in> {''or'', ''and''} then Inr (RStr s) else Inr RNone)"
| "simplify_marker_to_rpm_condition X (Const b) environments templates = Inr (RBool b)"
| "simplify_marker_to_rpm_condition X (Leaf var operator val) environments templates =
     simplify_leaf X var operator val environments templates"
| "simplify_marker_to_rpm_condition X (Group markers) environments templates =
     (case simplify_markers X markers environments templates of
        Inl e \<Rightarrow> Inl e
      | Inr simple_markers \<Rightarrow> reduce_group markers simple_markers)"
| "simplify_markers X [] environments templates = Inr []"
| "simplify_markers X (mk # markers) environments templates =
     (case simplify_marker_to_rpm_condition X mk environments templates of
        Inl e \<Rightarrow> Inl e
      | Inr r \<Rightarrow>
          (case simplify_markers X markers environments templates of
             Inl e \<Rightarrow> Inl e
           | Inr rs \<Rightarrow> Inr (r # rs)))"

subsection \<open>The specifier translator\<close>

text \<open>A \<^verbatim>\<open>Specifier\<close>, by its \<^verbatim>\<open>operator\<close> and \<^verbatim>\<open>version\<close> attributes.\<close>

record specifier =
  operator :: string
  version :: string

text \<open>
  The loop of lines 119 to 128 over the specifiers in the order the set yields them,
  \<open>rpm_specs\<close> being the list built so far.
\<close>

fun specifier_loop :: "string \<Rightarrow> specifier list \<Rightarrow> string list \<Rightarrow> string list" where
  "specifier_loop package [] rpm_specs = rpm_specs"
| "specifier_loop package (spec # rest) rpm_specs =
     (let version = py_rstrip ''.*'' (version spec) in
      case rpm_operator_correspondance (operator spec) of
        Some rpm_op \<Rightarrow>
          specifier_loop package rest (rpm_specs @ [package @ '' '' @ rpm_op @ '' '' @ version])
      | None \<Rightarrow>
          if operator spec = ''~='' then
            specifier_loop package rest
              (rpm_specs @ [package @ '' >= '' @ version, package @ '' < '' @ version @ ''^zzz''])
          else if operator spec = ''!='' then
            specifier_loop package rest
              (rpm_specs @ [''('' @ package @ '' < '' @ version @ '' or '' @ package @ '' > ''
                            @ version @ '')''])
          else specifier_loop package rest rpm_specs)"

definition specifier_to_rpm_version :: "string \<Rightarrow> specifier list \<Rightarrow> string" where
  "specifier_to_rpm_version package specs =
     (let rpm_specs = specifier_loop package specs [] in
      if rpm_specs \<noteq> [] then py_join '', '' rpm_specs else package)"

text \<open>What one specifier contributes: the loop run on it alone.\<close>

definition specifier_clauses :: "string \<Rightarrow> specifier \<Rightarrow> string list" where
  "specifier_clauses package spec = specifier_loop package [spec] []"

text \<open>The operators the loop has a branch for.\<close>

definition specifier_operators :: "string list" where
  "specifier_operators = [''=='', ''==='', ''<'', ''<='', ''>='', ''>'', ''~='', ''!='']"

subsection \<open>A stand-in for the imports, for the examples\<close>

text \<open>
  The examples need the library at a few inputs. \<open>sample_externals\<close> parses the two marker
  texts \<^verbatim>\<open>python_version == "3.9"\<close> and \<^verbatim>\<open>extra == "a"\<close>, each holding when the
  environment gives the variable that very string, and formats a template without braces
  to itself; it answers nothing else.
\<close>

definition sample_externals :: externals where
  "sample_externals =
     \<lparr>Marker = (\<lambda>text.
        if text = marker_text ''python_version'' ''=='' ''3.9''
        then Inr (\<lambda>env. Inr (env ''python_version'' = Some (Str ''3.9'')))
        else if text = marker_text ''extra'' ''=='' ''a''
        then Inr (\<lambda>env. Inr (env ''extra'' = Some (Str ''a'')))
        else Inl InvalidMarker),
      format_arch = (\<lambda>t a.
        if CHR ''{'' \<in> set t \<or> CHR ''}'' \<in> set t then Inl FormatError else Inr t)\<rparr>"

definition sample_templates :: templates where
  "sample_templates = [''python_abi'' \<mapsto> ''pythonabi'', ''python_arch'' \<mapsto> ''noarch'']"

subsection \<open>The supported comparisons, as the specification lists them\<close>

text \<open>
  Section 4.1 of the specification: \<^verbatim>\<open>platform_machine\<close> with \<^verbatim>\<open>==\<close>, \<^verbatim>\<open>!=\<close> or \<^verbatim>\<open>in\<close>; an
  interpreter-version variable or \<^verbatim>\<open>platform_release\<close> with one of the six table operators,
  \<^verbatim>\<open>~=\<close>, \<^verbatim>\<open>!=\<close> or \<^verbatim>\<open>in\<close>. This predicate is written from the specification, not from the
  code, and the leaf translator is compared with it.
\<close>

definition supported_comparison :: "string \<Rightarrow> string \<Rightarrow> bool" where
  "supported_comparison var op \<longleftrightarrow>
     var = ''platform_machine'' \<and> op \<in> set [''=='', ''!='', ''in'']
     \<or> var \<in> set [''python_full_version'', ''python_version'', ''implementation_version'',
                    ''platform_release'']
       \<and> op \<in> set [''=='', ''==='', ''<'', ''<='', ''>='', ''>'', ''~='', ''!='', ''in'']"

text \<open>
  Section 4.2, step 5: the clauses of a group are the runs of simplified items between
  the \<^verbatim>\<open>"or"\<close> tokens of the group, without the \<^verbatim>\<open>"and"\<close> tokens and the \<^verbatim>\<open>True\<close> constants.
  This function too is written from the specification: it walks the group and its
  simplified items together and opens a clause at each \<^verbatim>\<open>"or"\<close>.
\<close>

fun clauses_by_or :: "marker list \<Rightarrow> rval list \<Rightarrow> rval list list" where
  "clauses_by_or (m # ms) (r # rs) =
     (if m = Token ''or'' then [] # clauses_by_or ms rs
      else (case clauses_by_or ms rs of
              [] \<Rightarrow> []
            | c # cs \<Rightarrow> (if r \<noteq> RStr ''and'' \<and> r \<noteq> RBool True then r # c else c) # cs))"
| "clauses_by_or _ _ = [[]]"

section \<open>Properties\<close>

subsection \<open>The operator table and the loop\<close>

lemmas single_defs =
  single_marker_to_rpm_condition_def arch_condition_def marker_package_def version_condition_def

lemma roc_some:
  "rpm_operator_correspondance ''=='' = Some ''=''"
  "rpm_operator_correspondance ''==='' = Some ''=''"
  "rpm_operator_correspondance ''<'' = Some ''<''"
  "rpm_operator_correspondance ''<='' = Some ''<=''"
  "rpm_operator_correspondance ''>='' = Some ''>=''"
  "rpm_operator_correspondance ''>'' = Some ''>''"
  "rpm_operator_correspondance ''~='' = None"
  "rpm_operator_correspondance ''!='' = None"
  "rpm_operator_correspondance ''in'' = None"
  by (simp_all add: rpm_operator_correspondance_def)

lemma roc_none_iff:
  "rpm_operator_correspondance op = None \<longleftrightarrow>
     op \<noteq> ''=='' \<and> op \<noteq> ''==='' \<and> op \<noteq> ''<'' \<and> op \<noteq> ''<='' \<and> op \<noteq> ''>='' \<and> op \<noteq> ''>''"
  by (auto simp add: rpm_operator_correspondance_def)

lemma specifier_loop_acc:
  "specifier_loop package specs acc = acc @ concat (map (specifier_clauses package) specs)"
proof (induction specs arbitrary: acc)
  case Nil
  then show ?case by simp
next
  case (Cons spec rest)
  show ?case
    by (cases "rpm_operator_correspondance (operator spec)")
       (simp_all add: Cons.IH specifier_clauses_def Let_def)
qed

lemma specifier_to_rpm_version_clauses:
  "specifier_to_rpm_version package specs =
     (if concat (map (specifier_clauses package) specs) = [] then package
      else py_join '', '' (concat (map (specifier_clauses package) specs)))"
  by (simp add: specifier_to_rpm_version_def specifier_loop_acc)

lemma specifier_clauses_unknown:
  assumes "operator spec \<notin> set specifier_operators"
  shows "specifier_clauses package spec = []"
proof -
  from assms have "rpm_operator_correspondance (operator spec) = None"
    by (simp add: roc_none_iff specifier_operators_def)
  with assms show ?thesis
    by (simp add: specifier_clauses_def specifier_operators_def Let_def)
qed

subsection \<open>Claims on the specifier translator\<close>

text \<open>
  C7. The result is the clauses of the specifiers, in the order the specifiers are
  iterated, joined with \<^verbatim>\<open>", "\<close>, and the bare package name when there is no clause. So
  \<^verbatim>\<open>>=1.0\<close> followed by \<^verbatim>\<open><2.0\<close> for \<^verbatim>\<open>foo\<close> gives \<^verbatim>\<open>foo >= 1.0, foo < 2.0\<close>, and the
  empty specifier set gives \<^verbatim>\<open>foo\<close>.
\<close>

theorem specifier_join_order:
  "specifier_to_rpm_version package specs =
     (if concat (map (specifier_clauses package) specs) = [] then package
      else py_join '', '' (concat (map (specifier_clauses package) specs)))
   \<and> specifier_to_rpm_version ''foo''
        [\<lparr>operator = ''>='', version = ''1.0''\<rparr>, \<lparr>operator = ''<'', version = ''2.0''\<rparr>]
       = ''foo >= 1.0, foo < 2.0''
   \<and> specifier_to_rpm_version ''foo'' [] = ''foo''"
proof (intro conjI)
  show "specifier_to_rpm_version package specs =
     (if concat (map (specifier_clauses package) specs) = [] then package
      else py_join '', '' (concat (map (specifier_clauses package) specs)))"
    by (rule specifier_to_rpm_version_clauses)
  show "specifier_to_rpm_version ''foo''
        [\<lparr>operator = ''>='', version = ''1.0''\<rparr>, \<lparr>operator = ''<'', version = ''2.0''\<rparr>]
       = ''foo >= 1.0, foo < 2.0''"
    by (simp add: specifier_to_rpm_version_def roc_some py_rstrip_def)
  show "specifier_to_rpm_version ''foo'' [] = ''foo''"
    by (simp add: specifier_to_rpm_version_def)
qed

lemma single_unsupported_operator:
  assumes "templates ''python_abi'' = Some p"
    and "op \<notin> set specifier_operators" and "op \<noteq> ''in''"
  shows "single_marker_to_rpm_condition X (''python_version'', op, v) templates
         = Inl (UnsupportedOperatorMarker op (''python_version'', op, v))"
proof -
  from assms(2) have "rpm_operator_correspondance op = None"
    by (simp add: roc_none_iff specifier_operators_def)
  with assms show ?thesis
    by (simp add: single_defs specifier_operators_def)
qed

text \<open>
  C10. A specifier whose operator is none of the eight the loop knows contributes no
  clause, so the result is the same with the specifier left out, and when every
  specifier is of this kind the result is the bare package name. The function returns a
  string on every input: it has no error result. The leaf translator, on the same
  operator (and not \<^verbatim>\<open>in\<close>), raises.
\<close>

theorem specifier_unknown_operator_dropped:
  "(operator spec \<notin> set specifier_operators \<longrightarrow>
      specifier_clauses package spec = []
      \<and> specifier_to_rpm_version package (xs @ spec # ys)
          = specifier_to_rpm_version package (xs @ ys))
   \<and> ((\<forall>spec \<in> set specs. operator spec \<notin> set specifier_operators) \<longrightarrow>
        specifier_to_rpm_version package specs = package)
   \<and> (templates ''python_abi'' = Some p \<and> op \<notin> set specifier_operators \<and> op \<noteq> ''in'' \<longrightarrow>
        single_marker_to_rpm_condition X (''python_version'', op, v) templates
          = Inl (UnsupportedOperatorMarker op (''python_version'', op, v)))"
proof (intro conjI impI)
  assume a: "operator spec \<notin> set specifier_operators"
  then show c: "specifier_clauses package spec = []"
    by (rule specifier_clauses_unknown)
  show "specifier_to_rpm_version package (xs @ spec # ys)
          = specifier_to_rpm_version package (xs @ ys)"
    by (simp add: specifier_to_rpm_version_clauses c)
next
  assume "\<forall>spec \<in> set specs. operator spec \<notin> set specifier_operators"
  then have "\<forall>spec \<in> set specs. specifier_clauses package spec = []"
    by (simp add: specifier_clauses_unknown)
  then show "specifier_to_rpm_version package specs = package"
    by (simp add: specifier_to_rpm_version_clauses)
next
  assume "templates ''python_abi'' = Some p \<and> op \<notin> set specifier_operators \<and> op \<noteq> ''in''"
  then show "single_marker_to_rpm_condition X (''python_version'', op, v) templates
          = Inl (UnsupportedOperatorMarker op (''python_version'', op, v))"
    by (simp add: single_unsupported_operator)
qed

theorem specifier_unknown_operator_dropped_witness:
  "specifier_clauses ''foo'' \<lparr>operator = ''=~'', version = ''1.0''\<rparr> = []
   \<and> specifier_to_rpm_version ''foo''
        ([\<lparr>operator = ''>='', version = ''1.0''\<rparr>] @ \<lparr>operator = ''=~'', version = ''1.0''\<rparr> # [])
       = specifier_to_rpm_version ''foo'' ([\<lparr>operator = ''>='', version = ''1.0''\<rparr>] @ [])
   \<and> specifier_to_rpm_version ''foo'' [\<lparr>operator = ''=~'', version = ''1.0''\<rparr>] = ''foo''
   \<and> single_marker_to_rpm_condition sample_externals (''python_version'', ''=~'', ''1.0'')
        sample_templates
       = Inl (UnsupportedOperatorMarker ''=~'' (''python_version'', ''=~'', ''1.0''))"
  using specifier_unknown_operator_dropped
          [of "\<lparr>operator = ''=~'', version = ''1.0''\<rparr>" "''foo''"
              "[\<lparr>operator = ''>='', version = ''1.0''\<rparr>]" "[]"
              "[\<lparr>operator = ''=~'', version = ''1.0''\<rparr>]"
              sample_templates "''pythonabi''" "''=~''" sample_externals "''1.0''"]
  by (simp add: specifier_operators_def sample_templates_def)

subsection \<open>Claims on both translators\<close>

lemma rstrip_plain: "py_rstrip ''.*'' ''1.4'' = ''1.4''"
  by (simp add: py_rstrip_def)

text \<open>
  C6. For \<^verbatim>\<open>~=\<close> the leaf translator gives one string ending in \<^verbatim>\<open>^next)\<close>, for
  \<^verbatim>\<open>platform_release\<close> (package \<^verbatim>\<open>kernel\<close>) and for the interpreter-version variables
  (package the ABI template), and the specifier translator gives two clauses, the second
  ending in \<^verbatim>\<open>^zzz\<close>; \<^verbatim>\<open>~=1.4\<close> for \<^verbatim>\<open>foo\<close> gives \<^verbatim>\<open>foo >= 1.4, foo < 1.4^zzz\<close>.
\<close>

theorem compatible_release_suffixes:
  "single_marker_to_rpm_condition X (''platform_release'', ''~='', v) templates
     = Inr (''(kernel >= '' @ v @ '' and kernel < '' @ v @ ''^next)'')
   \<and> (var \<in> {''python_full_version'', ''python_version'', ''implementation_version''}
        \<and> templates ''python_abi'' = Some p \<longrightarrow>
      single_marker_to_rpm_condition X (var, ''~='', v) templates
        = Inr (''('' @ p @ '' >= '' @ v @ '' and '' @ p @ '' < '' @ v @ ''^next)''))
   \<and> specifier_clauses package \<lparr>operator = ''~='', version = v\<rparr>
        = [package @ '' >= '' @ py_rstrip ''.*'' v, package @ '' < '' @ py_rstrip ''.*'' v @ ''^zzz'']
   \<and> specifier_to_rpm_version ''foo'' [\<lparr>operator = ''~='', version = ''1.4''\<rparr>]
        = ''foo >= 1.4, foo < 1.4^zzz''"
proof (intro conjI impI)
  show "single_marker_to_rpm_condition X (''platform_release'', ''~='', v) templates
     = Inr (''(kernel >= '' @ v @ '' and kernel < '' @ v @ ''^next)'')"
    by (simp add: single_defs roc_some)
  show "single_marker_to_rpm_condition X (var, ''~='', v) templates
        = Inr (''('' @ p @ '' >= '' @ v @ '' and '' @ p @ '' < '' @ v @ ''^next)'')"
    if "var \<in> {''python_full_version'', ''python_version'', ''implementation_version''}
        \<and> templates ''python_abi'' = Some p"
    using that by (auto simp add: single_defs roc_some)
  show c: "specifier_clauses package \<lparr>operator = ''~='', version = v\<rparr>
        = [package @ '' >= '' @ py_rstrip ''.*'' v, package @ '' < '' @ py_rstrip ''.*'' v @ ''^zzz'']"
    for package v
    by (simp add: specifier_clauses_def roc_some Let_def)
  show "specifier_to_rpm_version ''foo'' [\<lparr>operator = ''~='', version = ''1.4''\<rparr>]
        = ''foo >= 1.4, foo < 1.4^zzz''"
    by (simp add: specifier_to_rpm_version_clauses c rstrip_plain)
qed

theorem compatible_release_suffixes_witness:
  "single_marker_to_rpm_condition sample_externals (''python_version'', ''~='', ''3.8'')
     sample_templates = Inr ''(pythonabi >= 3.8 and pythonabi < 3.8^next)''
   \<and> specifier_to_rpm_version ''foo'' [\<lparr>operator = ''~='', version = ''1.4''\<rparr>]
        = ''foo >= 1.4, foo < 1.4^zzz''"
  using compatible_release_suffixes
          [of sample_externals "''3.8''" sample_templates "''python_version''" "''pythonabi''" "''foo''"]
  by (simp add: sample_templates_def)

lemma specifier_clauses_eq:
  "specifier_clauses package \<lparr>operator = ''=='', version = v\<rparr>
     = [package @ '' = '' @ py_rstrip ''.*'' v]"
  "specifier_clauses package \<lparr>operator = ''==='', version = v\<rparr>
     = [package @ '' = '' @ py_rstrip ''.*'' v]"
  by (simp_all add: specifier_clauses_def roc_some Let_def)

lemma specifier_clauses_arbitrary:
  "specifier_clauses package
     (if operator spec = ''=='' then spec\<lparr>operator := ''===''\<rparr> else spec)
   = specifier_clauses package spec"
  by (simp add: specifier_clauses_def roc_some Let_def)

lemma single_eq_kernel:
  "single_marker_to_rpm_condition X (''platform_release'', ''=='', v) templates
     = Inr (''kernel = '' @ v)"
  "single_marker_to_rpm_condition X (''platform_release'', ''==='', v) templates
     = Inr (''kernel = '' @ v)"
  by (simp_all add: single_defs roc_some)

lemma single_eq_abi:
  assumes "var \<in> {''python_full_version'', ''python_version'', ''implementation_version''}"
    and "templates ''python_abi'' = Some p"
  shows "single_marker_to_rpm_condition X (var, ''=='', v) templates = Inr (p @ '' = '' @ v)"
    and "single_marker_to_rpm_condition X (var, ''==='', v) templates = Inr (p @ '' = '' @ v)"
  using assms by (auto simp add: single_defs roc_some)

lemma single_eq_same:
  assumes "var \<noteq> ''platform_machine''"
  shows "single_marker_to_rpm_condition X (var, ''=='', v) templates
       = single_marker_to_rpm_condition X (var, ''==='', v) templates"
  using assms
  by (cases "templates ''python_abi''")
     (simp_all add: single_defs roc_some)

text \<open>
  C9. \<^verbatim>\<open>==\<close> and \<^verbatim>\<open>===\<close> give the same output. In the leaf translator, for every
  variable but \<^verbatim>\<open>platform_machine\<close> the two results are equal, and they are
  \<^verbatim>\<open><package> = <version>\<close> for the interpreter-version variables and for
  \<^verbatim>\<open>platform_release\<close>. In the specifier translator each gives the one clause
  \<^verbatim>\<open><package> = <version>\<close>, and replacing every \<^verbatim>\<open>==\<close> of a specifier set by \<^verbatim>\<open>===\<close>
  leaves the result unchanged.
\<close>

theorem equality_operators_alike:
  "(var \<noteq> ''platform_machine'' \<longrightarrow>
      single_marker_to_rpm_condition X (var, ''=='', v) templates
        = single_marker_to_rpm_condition X (var, ''==='', v) templates)
   \<and> (var \<in> {''python_full_version'', ''python_version'', ''implementation_version''}
        \<and> templates ''python_abi'' = Some p \<longrightarrow>
      single_marker_to_rpm_condition X (var, ''=='', v) templates = Inr (p @ '' = '' @ v)
      \<and> single_marker_to_rpm_condition X (var, ''==='', v) templates = Inr (p @ '' = '' @ v))
   \<and> single_marker_to_rpm_condition X (''platform_release'', ''=='', v) templates
        = Inr (''kernel = '' @ v)
   \<and> single_marker_to_rpm_condition X (''platform_release'', ''==='', v) templates
        = Inr (''kernel = '' @ v)
   \<and> specifier_clauses package \<lparr>operator = ''=='', version = v\<rparr>
        = [package @ '' = '' @ py_rstrip ''.*'' v]
   \<and> specifier_clauses package \<lparr>operator = ''==='', version = v\<rparr>
        = [package @ '' = '' @ py_rstrip ''.*'' v]
   \<and> specifier_to_rpm_version package
        (map (\<lambda>spec. if operator spec = ''=='' then spec\<lparr>operator := ''===''\<rparr> else spec) specs)
        = specifier_to_rpm_version package specs"
proof (intro conjI impI)
  show "specifier_to_rpm_version package
        (map (\<lambda>spec. if operator spec = ''=='' then spec\<lparr>operator := ''===''\<rparr> else spec) specs)
        = specifier_to_rpm_version package specs"
    by (simp add: specifier_to_rpm_version_clauses comp_def specifier_clauses_arbitrary)
qed (simp_all add: single_eq_kernel single_eq_abi single_eq_same specifier_clauses_eq)

theorem equality_operators_alike_witness:
  "single_marker_to_rpm_condition sample_externals (''python_version'', ''=='', ''3.9'')
     sample_templates = Inr ''pythonabi = 3.9''
   \<and> single_marker_to_rpm_condition sample_externals (''python_version'', ''==='', ''3.9'')
     sample_templates = Inr ''pythonabi = 3.9''
   \<and> specifier_to_rpm_version ''foo'' [\<lparr>operator = ''==='', version = ''3.9''\<rparr>]
       = specifier_to_rpm_version ''foo'' [\<lparr>operator = ''=='', version = ''3.9''\<rparr>]"
  using equality_operators_alike
          [of "''python_version''" sample_externals "''3.9''" sample_templates "''pythonabi''"
              "''foo''" "[\<lparr>operator = ''=='', version = ''3.9''\<rparr>]"]
  by (simp add: sample_templates_def)

subsection \<open>The wildcard suffix\<close>

text \<open>Where what precedes the final \<^verbatim>\<open>.*\<close> ends in neither a dot nor a star, \<^verbatim>\<open>rstrip\<close>
  removes the suffix and nothing more.\<close>

lemma rstrip_wildcard_exact:
  assumes "v = [] \<or> last v \<notin> {CHR ''.'', CHR ''*''}"
  shows "py_rstrip ''.*'' (v @ ''.*'') = v"
proof (cases "v = []")
  case True
  then show ?thesis by (simp add: py_rstrip_def)
next
  case False
  with assms have l: "last v \<noteq> CHR ''.''" "last v \<noteq> CHR ''*''" by auto
  from False obtain w c where v: "v = w @ [c]" by (metis rev_exhaust)
  with l show ?thesis by (simp add: py_rstrip_def)
qed

text \<open>
  C8. The claim is that a version ending in \<^verbatim>\<open>.*\<close> loses that suffix and nothing else.
  \<^verbatim>\<open>rstrip(".*")\<close> removes every trailing dot and star: the version \<^verbatim>\<open>1.*.*\<close> of the
  arbitrary-equality specifier \<^verbatim>\<open>===1.*.*\<close> is \<^verbatim>\<open>1.*\<close> followed by \<^verbatim>\<open>.*\<close>, and the clause
  is \<^verbatim>\<open>foo = 1\<close>, not \<^verbatim>\<open>foo = 1.*\<close>.
\<close>

theorem wildcard_rstrip_overshoots:
  "version \<lparr>operator = ''==='', version = ''1.*.*''\<rparr> = ''1.*'' @ ''.*''
   \<and> specifier_to_rpm_version ''foo'' [\<lparr>operator = ''==='', version = ''1.*.*''\<rparr>] = ''foo = 1''
   \<and> specifier_to_rpm_version ''foo'' [\<lparr>operator = ''==='', version = ''1.*.*''\<rparr>] \<noteq> ''foo = 1.*''"
  by (simp add: specifier_to_rpm_version_def roc_some py_rstrip_def)

subsection \<open>Claims on the marker evaluator\<close>

text \<open>
  One surviving clause. A clause of several strings is joined with \<^verbatim>\<open>" and "\<close>. A clause
  promoted to its one string is joined too, character by character, and the result is not
  that string as soon as it has two characters.
\<close>

lemma reduce_single_multi:
  assumes "dnf_of (and_clauses ms sm) = [Multi rs]" and "str_items rs = Some ss"
  shows "reduce_group ms sm = Inr (RStr (py_join '' and '' ss))"
  using assms by (simp add: reduce_group_def render_dnf_def join_and_def)

lemma reduce_single_item:
  assumes "dnf_of (and_clauses ms sm) = [Single (RStr s)]"
  shows "reduce_group ms sm = Inr (RStr (py_join '' and '' (map (\<lambda>c. [c]) s)))"
  using assms by (simp add: reduce_group_def render_dnf_def join_and_def)

lemma length_join_chars:
  "length (py_join sep (map (\<lambda>c. [c]) s)) = length s + length sep * (length s - 1)"
proof (induction s)
  case Nil
  then show ?case by simp
next
  case (Cons c s)
  then show ?case by (cases s) simp_all
qed

lemma join_chars_differs:
  assumes "2 \<le> length s"
  shows "py_join '' and '' (map (\<lambda>c. [c]) s) \<noteq> s"
proof
  assume "py_join '' and '' (map (\<lambda>c. [c]) s) = s"
  then have "length (py_join '' and '' (map (\<lambda>c. [c]) s)) = length s" by simp
  with assms show False by (simp add: length_join_chars)
qed

text \<open>
  C1. The claim is that a group with one surviving clause of several elements returns
  them joined with \<^verbatim>\<open>" and "\<close> (so it does, \<open>reduce_single_multi\<close>), and that a group
  with one surviving clause of one element returns that
  element unchanged. Line 102 promotes the clause to its element, a string, and line 104
  joins what it is given with \<^verbatim>\<open>" and "\<close>: the characters of that string. A group of the
  one comparison \<^verbatim>\<open>platform_release >= "5"\<close>, whose translation is \<^verbatim>\<open>kernel >= 5\<close>,
  gives \<^verbatim>\<open>k and e and r and n and e and l and   and > and = and   and 5\<close>.
\<close>

theorem single_item_joined_by_character:
  "simplify_marker_to_rpm_condition X (Group [Leaf ''platform_release'' ''>='' ''5''])
     Map.empty templates
     = Inr (RStr ''k and e and r and n and e and l and   and > and = and   and 5'')
   \<and> single_marker_to_rpm_condition X (''platform_release'', ''>='', ''5'') templates
     = Inr ''kernel >= 5''"
  by (simp add: simplify_leaf_def single_defs roc_some reduce_group_def
        and_clauses_def splits_of_def enumerate_eq_zip dnf_of_def promote_def render_dnf_def join_and_def)

subsection \<open>The leaf translator, part by part\<close>

lemma map_result_total:
  assumes "\<And>x. \<exists>y. f x = Inr y"
  shows "\<exists>ys. map_result f xs = Inr ys"
proof (induction xs)
  case Nil
  then show ?case by simp
next
  case (Cons x xs)
  from assms obtain y where "f x = Inr y" by blast
  with Cons show ?case by auto
qed

lemma arch_condition_supported:
  assumes "templates ''python_arch'' = Some t"
    and "\<And>a. \<exists>s. format_arch X t a = Inr s"
    and "op \<in> set [''=='', ''!='', ''in'']"
  shows "\<exists>s. arch_condition X op val templates = Inr s"
proof -
  obtain s where s: "format_arch X t val = Inr s" using assms(2) by blast
  obtain ss where ss: "map_result (format_arch X t) (py_split val) = Inr ss"
    using map_result_total [of "format_arch X t"] assms(2) by blast
  from assms(3) consider "op = ''==''" | "op = ''!=''" | "op = ''in''" by auto
  then show ?thesis
    by cases (simp_all add: arch_condition_def assms(1) s ss)
qed

lemma arch_condition_unsupported:
  assumes "templates ''python_arch'' = Some t" and "op \<notin> set [''=='', ''!='', ''in'']"
  shows "arch_condition X op val templates = Inl (UnsupportedOperatorArch op)"
  using assms by (simp add: arch_condition_def)

lemma version_condition_supported:
  assumes "op \<in> set [''=='', ''==='', ''<'', ''<='', ''>='', ''>'', ''~='', ''!='', ''in'']"
  shows "\<exists>s. version_condition package (var, op, val) = Inr s"
proof (cases "rpm_operator_correspondance op")
  case None
  with assms have "op = ''~='' \<or> op = ''!='' \<or> op = ''in''"
    by (auto simp add: roc_none_iff)
  with None show ?thesis by (auto simp add: version_condition_def)
next
  case (Some a)
  then show ?thesis by (simp add: version_condition_def)
qed

lemma version_condition_unsupported:
  assumes "op \<notin> set [''=='', ''==='', ''<'', ''<='', ''>='', ''>'', ''~='', ''!='', ''in'']"
  shows "version_condition package (var, op, val) = Inl (UnsupportedOperatorMarker op (var, op, val))"
proof -
  from assms have "rpm_operator_correspondance op = None" by (simp add: roc_none_iff)
  with assms show ?thesis by (simp add: version_condition_def)
qed

lemma marker_package_known:
  assumes "var \<in> set [''python_full_version'', ''python_version'', ''implementation_version'',
                      ''platform_release'']"
    and "templates ''python_abi'' = Some p"
  shows "\<exists>package. marker_package var templates = Inr package"
  using assms by (auto simp add: marker_package_def)

lemma marker_package_unknown:
  assumes "var \<notin> set [''python_full_version'', ''python_version'', ''implementation_version'',
                      ''platform_release'']"
  shows "marker_package var templates = Inl (UnsupportedMarker var)"
  using assms by (simp add: marker_package_def)

lemma single_arch:
  "single_marker_to_rpm_condition X (''platform_machine'', op, val) templates
     = arch_condition X op val templates"
  by (simp add: single_marker_to_rpm_condition_def)

lemma single_version:
  assumes "var \<noteq> ''platform_machine''"
  shows "single_marker_to_rpm_condition X (var, op, val) templates
     = (case marker_package var templates of
          Inl e \<Rightarrow> Inl e
        | Inr package \<Rightarrow> version_condition package (var, op, val))"
  using assms by (simp add: single_marker_to_rpm_condition_def)

lemma single_supported:
  assumes "templates ''python_arch'' = Some t" and "templates ''python_abi'' = Some p"
    and "\<And>a. \<exists>s. format_arch X t a = Inr s"
    and "supported_comparison var op"
  shows "\<exists>s. single_marker_to_rpm_condition X (var, op, val) templates = Inr s"
proof (cases "var = ''platform_machine''")
  case True
  with assms(4) have "op \<in> set [''=='', ''!='', ''in'']"
    by (simp add: supported_comparison_def)
  with True show ?thesis
    using arch_condition_supported [where templates = templates and X = X and t = t, OF assms(1) assms(3)] by (simp add: single_arch)
next
  case False
  with assms(4) have k: "var \<in> set [''python_full_version'', ''python_version'',
      ''implementation_version'', ''platform_release'']"
    and o: "op \<in> set [''=='', ''==='', ''<'', ''<='', ''>='', ''>'', ''~='', ''!='', ''in'']"
    unfolding supported_comparison_def by blast+
  from marker_package_known [where templates = templates and p = p, OF k assms(2)] obtain package
    where "marker_package var templates = Inr package" by blast
  with False show ?thesis
    using version_condition_supported [OF o] by (simp add: single_version)
qed

lemma single_unsupported:
  assumes "templates ''python_arch'' = Some t" and "templates ''python_abi'' = Some p"
    and "\<not> supported_comparison var op"
  shows "single_marker_to_rpm_condition X (var, op, val) templates =
           Inl (if var = ''platform_machine'' then UnsupportedOperatorArch op
                else if var \<in> set [''python_full_version'', ''python_version'',
                                   ''implementation_version'', ''platform_release'']
                then UnsupportedOperatorMarker op (var, op, val)
                else UnsupportedMarker var)"
proof (cases "var = ''platform_machine''")
  case True
  with assms(3) have "op \<notin> set [''=='', ''!='', ''in'']"
    unfolding supported_comparison_def by blast
  with True show ?thesis
    using arch_condition_unsupported [where templates = templates and t = t, OF assms(1)] by (simp add: single_arch)
next
  case False
  show ?thesis
  proof (cases "var \<in> set [''python_full_version'', ''python_version'',
                             ''implementation_version'', ''platform_release'']")
    case True
    with assms(3) have o: "op \<notin> set [''=='', ''==='', ''<'', ''<='', ''>='', ''>'', ''~='', ''!='', ''in'']"
      unfolding supported_comparison_def by blast
    from marker_package_known [where templates = templates and p = p, OF True assms(2)] obtain package
      where "marker_package var templates = Inr package" by blast
    with False True show ?thesis
      using version_condition_unsupported [OF o] by (simp add: single_version)
  next
    case n: False
    with False show ?thesis
      using marker_package_unknown [OF n] by (simp add: single_version)
  qed
qed

lemma simplify_markers_error:
  assumes "mk \<in> set ms" and "simplify_marker_to_rpm_condition X mk environments templates = Inl e"
  shows "\<exists>e'. simplify_markers X ms environments templates = Inl e'"
  using assms
proof (induction ms)
  case Nil
  then show ?case by simp
next
  case (Cons m ms)
  then show ?case
    by (cases "m = mk") (auto split: sum.splits)
qed

lemma simplify_leaf_absent:
  assumes "environments var = None"
  shows "simplify_marker_to_rpm_condition X (Leaf var op val) environments templates
         = map_sum id RStr (single_marker_to_rpm_condition X (var, op, val) templates)"
  using assms by (simp add: simplify_leaf_def)

text \<open>
  C5. With both templates present and the architecture template formatting, the leaf
  translator returns a string exactly on the supported comparisons and raises on every
  other one: \<^verbatim>\<open>sys_platform == "win32"\<close> raises the unsupported-marker error,
  \<^verbatim>\<open>platform_machine < "x86_64"\<close> the unsupported-operator error. The evaluator hands a
  comparison whose variable is not in the environment to the leaf translator and returns
  what it returns, so the error reaches the caller; a group that holds such a comparison
  raises as well, and no string is returned.
\<close>

theorem leaf_translator_failures:
  assumes "templates ''python_arch'' = Some t" and "templates ''python_abi'' = Some p"
    and "\<forall>a. \<exists>s. format_arch X t a = Inr s"
  shows
    "single_marker_to_rpm_condition X (''sys_platform'', ''=='', ''win32'') templates
       = Inl (UnsupportedMarker ''sys_platform'')
     \<and> single_marker_to_rpm_condition X (''platform_machine'', ''<'', ''x86_64'') templates
       = Inl (UnsupportedOperatorArch ''<'')
     \<and> ((\<exists>s. single_marker_to_rpm_condition X (var, op, val) templates = Inr s)
          \<longleftrightarrow> supported_comparison var op)
     \<and> (\<not> supported_comparison var op \<longrightarrow>
          single_marker_to_rpm_condition X (var, op, val) templates =
            Inl (if var = ''platform_machine'' then UnsupportedOperatorArch op
                 else if var \<in> set [''python_full_version'', ''python_version'',
                                    ''implementation_version'', ''platform_release'']
                 then UnsupportedOperatorMarker op (var, op, val)
                 else UnsupportedMarker var))
     \<and> (environments var = None \<longrightarrow>
          simplify_marker_to_rpm_condition X (Leaf var op val) environments templates
            = map_sum id RStr (single_marker_to_rpm_condition X (var, op, val) templates))
     \<and> (environments var = None \<and> \<not> supported_comparison var op
          \<and> Leaf var op val \<in> set ms \<longrightarrow>
          (\<exists>e. simplify_marker_to_rpm_condition X (Group ms) environments templates = Inl e))"
proof -
  have f: "\<exists>s. format_arch X t a = Inr s" for a using assms(3) by blast
  have u: "single_marker_to_rpm_condition X (var, op, val) templates =
            Inl (if var = ''platform_machine'' then UnsupportedOperatorArch op
                 else if var \<in> set [''python_full_version'', ''python_version'',
                                    ''implementation_version'', ''platform_release'']
                 then UnsupportedOperatorMarker op (var, op, val)
                 else UnsupportedMarker var)"
    if "\<not> supported_comparison var op" for var op val
    using single_unsupported [where templates = templates and t = t and p = p, OF assms(1) assms(2) that] .
  have s: "\<exists>s. single_marker_to_rpm_condition X (var, op, val) templates = Inr s"
    if "supported_comparison var op"
    using single_supported [where templates = templates and t = t and p = p and X = X,
        OF assms(1) assms(2) f that] .
  have c1: "single_marker_to_rpm_condition X (''sys_platform'', ''=='', ''win32'') templates
       = Inl (UnsupportedMarker ''sys_platform'')"
    by (simp add: single_version marker_package_def)
  have c2: "single_marker_to_rpm_condition X (''platform_machine'', ''<'', ''x86_64'') templates
       = Inl (UnsupportedOperatorArch ''<'')"
    by (simp add: single_arch arch_condition_def assms(1))
  have c3: "(\<exists>s. single_marker_to_rpm_condition X (var, op, val) templates = Inr s)
          \<longleftrightarrow> supported_comparison var op"
  proof
    assume r: "\<exists>s. single_marker_to_rpm_condition X (var, op, val) templates = Inr s"
    show "supported_comparison var op"
    proof (rule ccontr)
      assume "\<not> supported_comparison var op"
      then have "\<exists>e. single_marker_to_rpm_condition X (var, op, val) templates = Inl e"
        by (simp add: u)
      with r show False by auto
    qed
  next
    assume "supported_comparison var op"
    then show "\<exists>s. single_marker_to_rpm_condition X (var, op, val) templates = Inr s" by (rule s)
  qed
  have c5: "simplify_marker_to_rpm_condition X (Leaf var op val) environments templates
            = map_sum id RStr (single_marker_to_rpm_condition X (var, op, val) templates)"
    if "environments var = None"
    using that by (rule simplify_leaf_absent)
  have c6: "\<exists>e. simplify_marker_to_rpm_condition X (Group ms) environments templates = Inl e"
    if h: "environments var = None \<and> \<not> supported_comparison var op \<and> Leaf var op val \<in> set ms"
  proof -
    from h have e: "environments var = None" and n: "\<not> supported_comparison var op" by auto
    have "\<exists>e. simplify_marker_to_rpm_condition X (Leaf var op val) environments templates = Inl e"
      unfolding c5 [OF e] by (simp add: u [OF n])
    then obtain e where "simplify_marker_to_rpm_condition X (Leaf var op val) environments templates = Inl e"
      by blast
    with h obtain e' where "simplify_markers X ms environments templates = Inl e'"
      using simplify_markers_error by blast
    then show ?thesis by simp
  qed
  show ?thesis
    using c1 c2 c3 u c5 c6 by blast
qed

theorem leaf_translator_failures_witness:
  "single_marker_to_rpm_condition sample_externals (''sys_platform'', ''=='', ''win32'')
     sample_templates = Inl (UnsupportedMarker ''sys_platform'')
   \<and> single_marker_to_rpm_condition sample_externals (''platform_machine'', ''<'', ''x86_64'')
     sample_templates = Inl (UnsupportedOperatorArch ''<'')
   \<and> \<not> supported_comparison ''sys_platform'' ''==''
   \<and> simplify_marker_to_rpm_condition sample_externals (Leaf ''sys_platform'' ''=='' ''win32'')
       Map.empty sample_templates = Inl (UnsupportedMarker ''sys_platform'')
   \<and> (\<exists>e. simplify_marker_to_rpm_condition sample_externals
          (Group [Leaf ''sys_platform'' ''=='' ''win32'']) Map.empty sample_templates = Inl e)"
proof -
  have a: "sample_templates ''python_arch'' = Some ''noarch''"
    and b: "sample_templates ''python_abi'' = Some ''pythonabi''"
    by (simp_all add: sample_templates_def)
  have c: "\<forall>a. \<exists>s. format_arch sample_externals ''noarch'' a = Inr s"
    by (simp add: sample_externals_def)
  have n: "\<not> supported_comparison ''sys_platform'' ''==''"
    by (simp add: supported_comparison_def)
  show ?thesis
    using leaf_translator_failures [where templates = sample_templates and X = sample_externals
        and t = "''noarch''" and p = "''pythonabi''" and var = "''sys_platform''" and op = "''==''"
        and val = "''win32''" and environments = Map.empty
        and ms = "[Leaf ''sys_platform'' ''=='' ''win32'']", OF a b c] n
    by simp
qed

subsection \<open>The group reducer\<close>

lemma and_clauses_filtered:
  assumes "cl \<in> set (and_clauses ms sm)"
  shows "RBool True \<notin> set cl \<and> RStr ''and'' \<notin> set cl \<and> set cl \<subseteq> set sm"
proof -
  from assms obtain prev stop where
    "cl = filter (\<lambda>mk. mk \<noteq> RStr ''and'' \<and> mk \<noteq> RBool True)
            (py_slice sm (nat (prev + 1)) stop)"
    by (auto simp add: and_clauses_def Let_def)
  moreover have "set (py_slice sm a stop) \<subseteq> set sm" for a
    by (cases stop) (auto dest: in_set_takeD in_set_dropD)
  ultimately show ?thesis by auto
qed

lemma dnf_of_filter:
  "dnf_of clauses = map promote (filter (\<lambda>cl. RBool False \<notin> set cl) clauses)"
  by (induction clauses) (simp_all add: dnf_of_def list_ex_iff)

lemma promote_true_iff: "promote cl = Single (RBool True) \<longleftrightarrow> cl = [] \<or> cl = [RBool True]"
proof (cases cl)
  case Nil
  then show ?thesis by (simp add: promote_def)
next
  case (Cons a as)
  then show ?thesis by (cases as) (simp_all add: promote_def)
qed

lemma reduce_group_none_survive:
  assumes "\<forall>cl \<in> set (and_clauses ms sm). RBool False \<in> set cl"
  shows "reduce_group ms sm = Inr (RBool False)"
proof -
  from assms have "dnf_of (and_clauses ms sm) = []"
    by (simp add: dnf_of_filter filter_empty_conv)
  then show ?thesis by (simp add: reduce_group_def render_dnf_def)
qed

lemma reduce_group_true_survives:
  assumes "[] \<in> set (and_clauses ms sm)"
  shows "reduce_group ms sm = Inr (RBool True)"
proof -
  from assms have "[] \<in> set (filter (\<lambda>cl. RBool False \<notin> set cl) (and_clauses ms sm))"
    by simp
  then have "promote [] \<in> promote ` set (filter (\<lambda>cl. RBool False \<notin> set cl) (and_clauses ms sm))"
    by (rule imageI)
  then have m: "Single (RBool True) \<in> set (dnf_of (and_clauses ms sm))"
    by (simp add: dnf_of_filter promote_def)
  then have "dnf_of (and_clauses ms sm) \<noteq> []" by auto
  with m show ?thesis by (simp add: reduce_group_def render_dnf_def list_ex_iff)
qed

lemma simplify_token_or:
  "simplify_marker_to_rpm_condition X (Token ''or'') environments templates = Inr (RStr ''or'')"
  by simp

lemma group_flat_example:
  assumes a: "simplify_marker_to_rpm_condition X A environments templates = Inr (RBool True)"
    and b: "simplify_marker_to_rpm_condition X B environments templates = Inr (RBool False)"
    and c: "simplify_marker_to_rpm_condition X C environments templates = Inr (RBool True)"
  shows "simplify_marker_to_rpm_condition X
           (Group [A, Token ''and'', B, Token ''or'', C]) environments templates
         = Inr (RBool True)"
proof -
  have n: "A \<noteq> Token ''or''" "B \<noteq> Token ''or''" "C \<noteq> Token ''or''"
    using a b c by auto
  have sm: "simplify_markers X [A, Token ''and'', B, Token ''or'', C] environments templates
            = Inr [RBool True, RStr ''and'', RBool False, RStr ''or'', RBool True]"
    by (simp add: a b c)
  have sp: "splits_of [A, Token ''and'', B, Token ''or'', C] = [3]"
    using n by (simp add: splits_of_def)
  have cl: "and_clauses [A, Token ''and'', B, Token ''or'', C]
              [RBool True, RStr ''and'', RBool False, RStr ''or'', RBool True]
            = [[RBool False], []]"
    by (simp add: and_clauses_def sp numeral_3_eq_3 eval_nat_numeral)
  have "reduce_group [A, Token ''and'', B, Token ''or'', C]
              [RBool True, RStr ''and'', RBool False, RStr ''or'', RBool True]
        = Inr (RBool True)"
    by (rule reduce_group_true_survives) (simp add: cl)
  then show ?thesis by (simp only: simplify_marker_to_rpm_condition.simps sm sum.case)
qed

lemma group_nested_example:
  assumes a: "simplify_marker_to_rpm_condition X A environments templates = Inr (RBool True)"
    and b: "simplify_marker_to_rpm_condition X B environments templates = Inr (RBool False)"
    and c: "simplify_marker_to_rpm_condition X C environments templates = Inr (RBool True)"
  shows "simplify_marker_to_rpm_condition X
           (Group [Group [A, Token ''and'', B], Token ''or'', C]) environments templates
         = Inr (RBool True)"
proof -
  have n: "A \<noteq> Token ''or''" "B \<noteq> Token ''or''" "C \<noteq> Token ''or''"
    using a b c by auto
  have sp1: "splits_of [A, Token ''and'', B] = []"
    using n by (simp add: splits_of_def)
  have cl1: "and_clauses [A, Token ''and'', B] [RBool True, RStr ''and'', RBool False]
            = [[RBool False]]"
    by (simp add: and_clauses_def sp1)
  have inner: "simplify_marker_to_rpm_condition X (Group [A, Token ''and'', B]) environments templates
     = Inr (RBool False)"
    by (simp add: a b reduce_group_def cl1 dnf_of_def render_dnf_def)
  have sp: "splits_of [Group [A, Token ''and'', B], Token ''or'', C] = [1]"
    using n by (simp add: splits_of_def)
  have cl: "and_clauses [Group [A, Token ''and'', B], Token ''or'', C]
              [RBool False, RStr ''or'', RBool True]
            = [[RBool False], []]"
    by (simp add: and_clauses_def sp)
  have sm: "simplify_markers X [Group [A, Token ''and'', B], Token ''or'', C] environments templates
            = Inr [RBool False, RStr ''or'', RBool True]"
    using inner by (simp add: c)
  have "reduce_group [Group [A, Token ''and'', B], Token ''or'', C]
              [RBool False, RStr ''or'', RBool True]
        = Inr (RBool True)"
    by (rule reduce_group_true_survives) (simp add: cl)
  then show ?thesis by (simp only: simplify_marker_to_rpm_condition.simps sm sum.case)
qed


text \<open>The slices of lines 99 to 101 are the clauses between the \<^verbatim>\<open>"or"\<close> tokens.\<close>

lemma and_clauses_map:
  "and_clauses ms sm =
     map (\<lambda>(prev, stop). filter (\<lambda>mk. mk \<noteq> RStr ''and'' \<and> mk \<noteq> RBool True)
                            (py_slice sm (nat (prev + 1)) stop))
       (zip (- 1 # map int (splits_of ms)) (map Some (splits_of ms) @ [None]))"
proof -
  have "concat (map (\<lambda>(x, y). [f x y]) zs) = map (\<lambda>(x, y). f x y) zs" for f :: "int \<Rightarrow> nat option \<Rightarrow> rval list" and zs
    by (induction zs) auto
  then show ?thesis by (simp add: and_clauses_def Let_def)
qed

lemma splits_shift:
  "[n. (n, v) \<leftarrow> enumerate k ms, v = t] = map ((+) k) [n. (n, v) \<leftarrow> enumerate 0 ms, v = t]"
proof (induction ms arbitrary: k)
  case Nil
  then show ?case by simp
next
  case (Cons m ms)
  have "[n. (n, v) \<leftarrow> enumerate (Suc k) ms, v = t] = map ((+) k) [n. (n, v) \<leftarrow> enumerate (Suc 0) ms, v = t]"
    using Cons.IH [of "Suc k"] Cons.IH [of "Suc 0"] by (simp add: comp_def)
  then show ?case by simp
qed

lemma splits_of_Cons:
  "splits_of (m # ms) = (if m = Token ''or'' then [0] else []) @ map Suc (splits_of ms)"
  using splits_shift [where k = "Suc 0" and ms = ms and t = "Token ''or''"]
  by (simp add: splits_of_def)


lemma and_clauses_starts:
  "and_clauses ms sm =
     map (\<lambda>(start, stop). filter (\<lambda>mk. mk \<noteq> RStr ''and'' \<and> mk \<noteq> RBool True)
                             (py_slice sm start stop))
       (zip (0 # map Suc (splits_of ms)) (map Some (splits_of ms) @ [None]))"
proof -
  have n: "nat (int n + 1) = Suc n" for n by simp
  have "zip (0 # map Suc (splits_of ms)) (map Some (splits_of ms) @ [None])
        = map (\<lambda>(prev, stop). (nat (prev + 1), stop))
            (zip (- 1 # map int (splits_of ms)) (map Some (splits_of ms) @ [None]))"
    unfolding zip_map1 [symmetric] by (simp add: comp_def n del: of_nat_Suc)
  then show ?thesis
    unfolding and_clauses_map by (simp add: case_prod_unfold comp_def)
qed

lemma slice_shift:
  "py_slice (r # rs) (Suc a) (map_option Suc b) = py_slice rs a b"
  by (cases b) simp_all

lemma zip_shift:
  "map (\<lambda>(start, stop). F (py_slice (r # rs) start stop))
       (zip (map Suc as) (map (map_option Suc) bs))
   = map (\<lambda>(start, stop). F (py_slice rs start stop)) (zip as bs)"
proof (induction as arbitrary: bs)
  case Nil
  then show ?case by simp
next
  case (Cons a as)
  then show ?case by (cases bs) (simp_all add: slice_shift)
qed

lemma and_clauses_Cons_or:
  "and_clauses (Token ''or'' # ms) (r # rs) = [] # and_clauses ms rs"
proof -
  have "zip (Suc 0 # map Suc (map Suc (splits_of ms))) (map Some (map Suc (splits_of ms)) @ [None])
        = zip (map Suc (0 # map Suc (splits_of ms)))
              (map (map_option Suc) (map Some (splits_of ms) @ [None]))"
    by (simp add: comp_def)
  then show ?thesis
    unfolding and_clauses_starts splits_of_Cons
    using zip_shift [where as = "0 # map Suc (splits_of ms)"
        and bs = "map Some (splits_of ms) @ [None]" and r = r and rs = rs
        and F = "filter (\<lambda>mk. mk \<noteq> RStr ''and'' \<and> mk \<noteq> RBool True)"]
    by simp
qed

lemma and_clauses_Cons_other:
  assumes "m \<noteq> Token ''or''"
  shows "and_clauses (m # ms) (r # rs) =
           (case and_clauses ms rs of
              [] \<Rightarrow> []
            | c # cs \<Rightarrow> (if r \<noteq> RStr ''and'' \<and> r \<noteq> RBool True then r # c else c) # cs)"
proof (cases "splits_of ms")
  case Nil
  with assms show ?thesis
    by (simp add: and_clauses_starts splits_of_Cons)
next
  case (Cons p ps)
  have z: "zip (map Suc (map Suc (p # ps))) (map Some (map Suc ps) @ [None])
        = zip (map Suc (map Suc (p # ps)))
              (map (map_option Suc) (map Some ps @ [None]))"
    by (simp add: comp_def)
  have s: "map (\<lambda>(start, stop). filter (\<lambda>mk. mk \<noteq> RStr ''and'' \<and> mk \<noteq> RBool True)
                  (py_slice (r # rs) start stop))
             (zip (map Suc (map Suc (p # ps))) (map Some (map Suc ps) @ [None]))
           = map (\<lambda>(start, stop). filter (\<lambda>mk. mk \<noteq> RStr ''and'' \<and> mk \<noteq> RBool True)
                  (py_slice rs start stop))
             (zip (map Suc (p # ps)) (map Some ps @ [None]))"
    unfolding z by (rule zip_shift)
  from assms show ?thesis
    unfolding and_clauses_starts splits_of_Cons Cons
    using s by simp
qed

lemma and_clauses_by_or:
  assumes "length sm = length ms"
  shows "and_clauses ms sm = clauses_by_or ms sm"
  using assms
proof (induction ms arbitrary: sm)
  case Nil
  then show ?case by (simp add: and_clauses_starts splits_of_def)
next
  case (Cons m ms)
  then obtain r rs where sm: "sm = r # rs" by (cases sm) auto
  with Cons have "and_clauses ms rs = clauses_by_or ms rs" by simp
  then show ?case
    unfolding sm
    by (cases "m = Token ''or''") (simp_all add: and_clauses_Cons_or and_clauses_Cons_other)
qed

lemma simplify_markers_length:
  assumes "simplify_markers X ms environments templates = Inr sm"
  shows "length sm = length ms"
  using assms
proof (induction ms arbitrary: sm)
  case Nil
  then show ?case by simp
next
  case (Cons m ms)
  then show ?case by (auto split: sum.splits)
qed

text \<open>
  C4. For a group whose items simplify to \<open>sm\<close>: the and-clauses are the runs of \<open>sm\<close>
  between the \<^verbatim>\<open>"or"\<close> tokens of the group without their \<^verbatim>\<open>"and"\<close> and \<^verbatim>\<open>True\<close> items,
  so no and-clause holds a \<^verbatim>\<open>True\<close> or an \<^verbatim>\<open>"and"\<close> token; the clauses kept are those
  without a \<^verbatim>\<open>False\<close>, each promoted, in order; the empty clause is promoted to \<^verbatim>\<open>True\<close>; when no clause is kept the group is
  \<^verbatim>\<open>False\<close>, and when a kept clause is \<^verbatim>\<open>True\<close> the group is \<^verbatim>\<open>True\<close>. With \<open>A\<close> simplifying
  to true, \<open>B\<close> to false and \<open>C\<close> to true, the group \<open>A and B or C\<close>, flat or with
  \<open>A and B\<close> nested, is \<^verbatim>\<open>True\<close>.
\<close>

theorem group_reduction:
  assumes "simplify_markers X ms environments templates = Inr sm"
  shows
    "and_clauses ms sm = clauses_by_or ms sm
     \<and> (\<forall>cl \<in> set (and_clauses ms sm). RBool True \<notin> set cl \<and> RStr ''and'' \<notin> set cl)
     \<and> dnf_of (and_clauses ms sm)
         = map promote (filter (\<lambda>cl. RBool False \<notin> set cl) (and_clauses ms sm))
     \<and> promote [] = Single (RBool True)
     \<and> (dnf_of (and_clauses ms sm) = [] \<longrightarrow>
          simplify_marker_to_rpm_condition X (Group ms) environments templates = Inr (RBool False))
     \<and> (Single (RBool True) \<in> set (dnf_of (and_clauses ms sm)) \<longrightarrow>
          simplify_marker_to_rpm_condition X (Group ms) environments templates = Inr (RBool True))
     \<and> (simplify_marker_to_rpm_condition X A environments templates = Inr (RBool True)
          \<and> simplify_marker_to_rpm_condition X B environments templates = Inr (RBool False)
          \<and> simplify_marker_to_rpm_condition X C environments templates = Inr (RBool True) \<longrightarrow>
          simplify_marker_to_rpm_condition X (Group [A, Token ''and'', B, Token ''or'', C])
            environments templates = Inr (RBool True)
          \<and> simplify_marker_to_rpm_condition X (Group [Group [A, Token ''and'', B], Token ''or'', C])
            environments templates = Inr (RBool True))"
proof (intro conjI impI ballI)
  show "and_clauses ms sm = clauses_by_or ms sm"
    using assms by (intro and_clauses_by_or simplify_markers_length)
next
  fix cl assume "cl \<in> set (and_clauses ms sm)"
  then show "RBool True \<notin> set cl" "RStr ''and'' \<notin> set cl"
    using and_clauses_filtered by blast+
next
  show "dnf_of (and_clauses ms sm)
         = map promote (filter (\<lambda>cl. RBool False \<notin> set cl) (and_clauses ms sm))"
    by (rule dnf_of_filter)
next
  show "promote [] = Single (RBool True)" by (simp add: promote_def)
next
  assume "dnf_of (and_clauses ms sm) = []"
  then show "simplify_marker_to_rpm_condition X (Group ms) environments templates = Inr (RBool False)"
    by (simp add: assms reduce_group_def render_dnf_def)
next
  assume m: "Single (RBool True) \<in> set (dnf_of (and_clauses ms sm))"
  then have "dnf_of (and_clauses ms sm) \<noteq> []" by auto
  with m show "simplify_marker_to_rpm_condition X (Group ms) environments templates = Inr (RBool True)"
    by (simp add: assms reduce_group_def render_dnf_def list_ex_iff)
next
  assume h: "simplify_marker_to_rpm_condition X A environments templates = Inr (RBool True)
          \<and> simplify_marker_to_rpm_condition X B environments templates = Inr (RBool False)
          \<and> simplify_marker_to_rpm_condition X C environments templates = Inr (RBool True)"
  then show "simplify_marker_to_rpm_condition X (Group [A, Token ''and'', B, Token ''or'', C])
            environments templates = Inr (RBool True)"
    by (intro group_flat_example) simp_all
  from h show "simplify_marker_to_rpm_condition X (Group [Group [A, Token ''and'', B], Token ''or'', C])
            environments templates = Inr (RBool True)"
    by (intro group_nested_example) simp_all
qed

theorem group_reduction_witness:
  "simplify_marker_to_rpm_condition sample_externals
     (Group [Const True, Token ''and'', Const False, Token ''or'', Const True])
     Map.empty sample_templates = Inr (RBool True)
   \<and> simplify_marker_to_rpm_condition sample_externals
     (Group [Group [Const True, Token ''and'', Const False], Token ''or'', Const True])
     Map.empty sample_templates = Inr (RBool True)
   \<and> simplify_marker_to_rpm_condition sample_externals
     (Group [Const True, Token ''and'', Const False]) Map.empty sample_templates
     = Inr (RBool False)"
proof -
  have m1: "simplify_markers sample_externals
              [Const True, Token ''and'', Const False, Token ''or'', Const True]
              Map.empty sample_templates
            = Inr [RBool True, RStr ''and'', RBool False, RStr ''or'', RBool True]"
    by simp
  have m2: "simplify_markers sample_externals [Const True, Token ''and'', Const False]
              Map.empty sample_templates
            = Inr [RBool True, RStr ''and'', RBool False]"
    by simp
  have d2: "dnf_of (and_clauses [Const True, Token ''and'', Const False]
              [RBool True, RStr ''and'', RBool False]) = []"
    by (simp add: and_clauses_def splits_of_def dnf_of_def)
  show ?thesis
    using group_reduction [OF m1, of "Const True" "Const False" "Const True"]
      group_reduction [OF m2, of "Const True" "Const False" "Const True"] d2
    by simp
qed

subsection \<open>A comparison against the candidates of the environment\<close>

lemma map_result_values:
  assumes "\<forall>x \<in> set xs. f x = Inr (g x)"
  shows "map_result f xs = Inr (map g xs)"
  using assms by (induction xs) simp_all

lemma simplify_leaf_candidates:
  assumes "environments var = Some (Lst vals)"
    and "Marker X (marker_text var op val) = Inr ev"
    and "\<forall>v \<in> set vals. ev (Map.empty(var \<mapsto> Str v)) = Inr (holds v)"
  shows "simplify_marker_to_rpm_condition X (Leaf var op val) environments templates =
           (if \<forall>v \<in> set vals. holds v then Inr (RBool True)
            else if \<forall>v \<in> set vals. \<not> holds v then Inr (RBool False)
            else if var = ''extras'' then Inr (RBool True)
            else map_sum id RStr (single_marker_to_rpm_condition X (var, op, val) templates))"
proof -
  have "map_result (\<lambda>v. ev (Map.empty(var \<mapsto> Str v))) vals = Inr (map holds vals)"
    using assms(3) by (rule map_result_values)
  then show ?thesis
    by (simp add: simplify_leaf_def assms(1) assms(2) list_all_iff)
qed

lemma map_sum_not_bool: "map_sum id RStr r \<noteq> Inr (RBool b)"
  by (cases r) simp_all

text \<open>
  C3, amended. Let the variable of a comparison have a list of candidates in the
  environment, and let the comparison parse. If the comparison holds for every candidate,
  the result is \<^verbatim>\<open>True\<close> (also when there is no candidate). If there is a candidate and it
  holds for none, the result is \<^verbatim>\<open>False\<close>. If every evaluation returns, it holds for some
  candidate and fails for another, and the variable is not \<^verbatim>\<open>extras\<close>, the result is what
  the leaf translator returns for the comparison, which is never a boolean.
\<close>

theorem leaf_candidates:
  assumes "environments var = Some (Lst vals)"
    and "Marker X (marker_text var op val) = Inr ev"
  shows
    "((\<forall>v \<in> set vals. ev (Map.empty(var \<mapsto> Str v)) = Inr True) \<longrightarrow>
        simplify_marker_to_rpm_condition X (Leaf var op val) environments templates
          = Inr (RBool True))
     \<and> (vals \<noteq> [] \<and> (\<forall>v \<in> set vals. ev (Map.empty(var \<mapsto> Str v)) = Inr False) \<longrightarrow>
        simplify_marker_to_rpm_condition X (Leaf var op val) environments templates
          = Inr (RBool False))
     \<and> ((\<forall>v \<in> set vals. \<exists>b. ev (Map.empty(var \<mapsto> Str v)) = Inr b)
        \<and> (\<exists>v \<in> set vals. ev (Map.empty(var \<mapsto> Str v)) = Inr True)
        \<and> (\<exists>v \<in> set vals. ev (Map.empty(var \<mapsto> Str v)) = Inr False)
        \<and> var \<noteq> ''extras'' \<longrightarrow>
        simplify_marker_to_rpm_condition X (Leaf var op val) environments templates
          = map_sum id RStr (single_marker_to_rpm_condition X (var, op, val) templates)
        \<and> (\<forall>b. simplify_marker_to_rpm_condition X (Leaf var op val) environments templates
              \<noteq> Inr (RBool b)))"
proof (intro conjI impI)
  assume "\<forall>v \<in> set vals. ev (Map.empty(var \<mapsto> Str v)) = Inr True"
  then show "simplify_marker_to_rpm_condition X (Leaf var op val) environments templates
          = Inr (RBool True)"
    using simplify_leaf_candidates [where environments = environments and var = var and vals = vals and ev = ev and X = X and op = op and val = val and holds = "\<lambda>v. True", OF assms] by simp
next
  assume h: "vals \<noteq> [] \<and> (\<forall>v \<in> set vals. ev (Map.empty(var \<mapsto> Str v)) = Inr False)"
  then obtain v where "v \<in> set vals" by (cases vals) auto
  with h show "simplify_marker_to_rpm_condition X (Leaf var op val) environments templates
          = Inr (RBool False)"
    using simplify_leaf_candidates [where environments = environments and var = var and vals = vals and ev = ev and X = X and op = op and val = val and holds = "\<lambda>v. False", OF assms] by auto
next
  assume h: "(\<forall>v \<in> set vals. \<exists>b. ev (Map.empty(var \<mapsto> Str v)) = Inr b)
        \<and> (\<exists>v \<in> set vals. ev (Map.empty(var \<mapsto> Str v)) = Inr True)
        \<and> (\<exists>v \<in> set vals. ev (Map.empty(var \<mapsto> Str v)) = Inr False)
        \<and> var \<noteq> ''extras''"
  define holds where "holds v \<longleftrightarrow> ev (Map.empty(var \<mapsto> Str v)) = Inr True" for v
  from h have a: "\<forall>v \<in> set vals. ev (Map.empty(var \<mapsto> Str v)) = Inr (holds v)"
    by (auto simp add: holds_def)
  from h obtain v1 where "v1 \<in> set vals" "ev (Map.empty(var \<mapsto> Str v1)) = Inr True" by blast
  then have t: "\<not> (\<forall>v \<in> set vals. \<not> holds v)" by (auto simp add: holds_def)
  from h obtain v0 where "v0 \<in> set vals" "ev (Map.empty(var \<mapsto> Str v0)) = Inr False" by blast
  then have "v0 \<in> set vals" "\<not> holds v0" by (simp_all add: holds_def)
  then have f: "\<not> (\<forall>v \<in> set vals. holds v)" by blast
  from h have x: "var \<noteq> ''extras''" by simp
  show r: "simplify_marker_to_rpm_condition X (Leaf var op val) environments templates
          = map_sum id RStr (single_marker_to_rpm_condition X (var, op, val) templates)"
    unfolding simplify_leaf_candidates [where environments = environments and var = var and vals = vals and ev = ev and X = X and op = op and val = val and holds = holds, OF assms a] by (simp only: t f x if_False)
  show "\<forall>b. simplify_marker_to_rpm_condition X (Leaf var op val) environments templates
              \<noteq> Inr (RBool b)"
    unfolding r by (simp add: map_sum_not_bool)
qed


text \<open>The stand-in library at the inputs of the examples.\<close>

lemma sample_Marker_python_version:
  "Marker sample_externals (marker_text ''python_version'' ''=='' ''3.9'')
     = Inr (\<lambda>env. Inr (env ''python_version'' = Some (Str ''3.9'')))"
  by (simp add: sample_externals_def)

lemma sample_Marker_extra:
  "Marker sample_externals (marker_text ''extra'' ''=='' ''a'')
     = Inr (\<lambda>env. Inr (env ''extra'' = Some (Str ''a'')))"
  by (simp add: sample_externals_def marker_text_def)

lemma sample_single_python_version:
  "single_marker_to_rpm_condition sample_externals (''python_version'', ''=='', ''3.9'')
     sample_templates = Inr ''pythonabi = 3.9''"
  by (simp add: single_defs roc_some sample_templates_def)

theorem leaf_candidates_witness:
  "simplify_marker_to_rpm_condition sample_externals (Leaf ''python_version'' ''=='' ''3.9'')
     [''python_version'' \<mapsto> Lst [''3.9'']] sample_templates = Inr (RBool True)
   \<and> simplify_marker_to_rpm_condition sample_externals (Leaf ''python_version'' ''=='' ''3.9'')
     [''python_version'' \<mapsto> Lst [''3.8'']] sample_templates = Inr (RBool False)
   \<and> simplify_marker_to_rpm_condition sample_externals (Leaf ''python_version'' ''=='' ''3.9'')
     [''python_version'' \<mapsto> Lst [''3.8'', ''3.9'']] sample_templates
     = Inr (RStr ''pythonabi = 3.9'')"
proof -
  note t = leaf_candidates [where X = sample_externals and var = "''python_version''"
      and op = "''==''" and val = "''3.9''" and templates = sample_templates
      and ev = "\<lambda>env. Inr (env ''python_version'' = Some (Str ''3.9''))"]
  have e: "[''python_version'' \<mapsto> Lst vals] ''python_version'' = Some (Lst vals)" for vals
    by simp
  show ?thesis
    using t [where environments = "[''python_version'' \<mapsto> Lst [''3.9'']]"
            and vals = "[''3.9'']", OF e sample_Marker_python_version]
      t [where environments = "[''python_version'' \<mapsto> Lst [''3.8'']]"
            and vals = "[''3.8'']", OF e sample_Marker_python_version]
      t [where environments = "[''python_version'' \<mapsto> Lst [''3.8'', ''3.9'']]"
            and vals = "[''3.8'', ''3.9'']", OF e sample_Marker_python_version]
    by (simp add: sample_single_python_version)
qed

text \<open>
  C3 as stated fails on an empty list of candidates: the comparison then holds for no
  candidate, and for every candidate, and line 93 tests \<^verbatim>\<open>all(evaluations)\<close> first, so
  the result is \<^verbatim>\<open>True\<close> and not \<^verbatim>\<open>False\<close>.
\<close>

theorem leaf_candidates_empty_counterexample:
  "simplify_marker_to_rpm_condition sample_externals (Leaf ''python_version'' ''=='' ''3.9'')
     [''python_version'' \<mapsto> Lst []] sample_templates = Inr (RBool True)
   \<and> simplify_marker_to_rpm_condition sample_externals (Leaf ''python_version'' ''=='' ''3.9'')
     [''python_version'' \<mapsto> Lst []] sample_templates \<noteq> Inr (RBool False)"
  by (simp add: simplify_leaf_def sample_Marker_python_version)

subsection \<open>The special case for extras\<close>

text \<open>
  Line 93 gives \<^verbatim>\<open>True\<close> to a comparison that holds for some candidates only when its
  variable is named \<^verbatim>\<open>extras\<close>; the branch is reached by a comparison on that very name,
  and only if the library parses it. A comparison the library does not parse raises on
  line 88.
\<close>

lemma extras_special_case:
  assumes "environments ''extras'' = Some (Lst vals)"
    and "Marker X (marker_text ''extras'' op val) = Inr ev"
    and "\<forall>v \<in> set vals. ev [''extras'' \<mapsto> Str v] = Inr (holds v)"
    and "\<exists>v \<in> set vals. holds v"
  shows "simplify_marker_to_rpm_condition X (Leaf ''extras'' op val) environments templates
         = Inr (RBool True)"
proof -
  from assms(4) have n: "\<not> (\<forall>v \<in> set vals. \<not> holds v)" by blast
  show ?thesis
    unfolding simplify_leaf_candidates [where environments = environments and var = "''extras''"
        and vals = vals and ev = ev and X = X and op = op and val = val and holds = holds,
        OF assms(1) assms(2) assms(3)]
    by (simp only: n if_False, simp)
qed

lemma unparsed_comparison_raises:
  assumes "environments var = Some candidates"
    and "Marker X (marker_text var op val) = Inl e"
  shows "simplify_marker_to_rpm_condition X (Leaf var op val) environments templates
         = Inl (External e)"
  using assms by (simp add: simplify_leaf_def)

lemma extra_keyed_mixed:
  assumes "Marker X (marker_text ''extra'' ''=='' ''a'') = Inr ev"
    and "ev [''extra'' \<mapsto> Str ''a''] = Inr True"
    and "ev [''extra'' \<mapsto> Str ''b''] = Inr False"
  shows "simplify_marker_to_rpm_condition X (Leaf ''extra'' ''=='' ''a'')
           [''extra'' \<mapsto> Lst [''a'', ''b'']] templates = Inl (UnsupportedMarker ''extra'')"
  using assms by (simp add: simplify_leaf_def single_version marker_package_def)

text \<open>
  C2. The claim is that with the environment \<^verbatim>\<open>{"extras": ["a", "b"]}\<close> the comparison
  \<^verbatim>\<open>extra == "a"\<close> gives \<^verbatim>\<open>True\<close>. The evaluator looks the variable of the comparison up
  under its own name (line 86) and compares that same name with \<^verbatim>\<open>'extras'\<close> (line 93),
  while the variable is named \<^verbatim>\<open>extra\<close>. With the environment of the claim, \<^verbatim>\<open>extra\<close> is
  not a key, and the comparison goes to the leaf translator, which has no package for it
  and raises. With the environment keyed \<^verbatim>\<open>extra\<close> instead, the comparison is evaluated,
  holds for \<^verbatim>\<open>a\<close> and fails for \<^verbatim>\<open>b\<close>, is not named \<^verbatim>\<open>extras\<close>, and raises in the leaf
  translator all the same: no environment gives the comparison the special case.
\<close>

theorem extra_marker_raises:
  "simplify_marker_to_rpm_condition X (Leaf ''extra'' ''=='' ''a'')
     [''extras'' \<mapsto> Lst [''a'', ''b'']] templates = Inl (UnsupportedMarker ''extra'')
   \<and> simplify_marker_to_rpm_condition X (Leaf ''extra'' ''=='' ''a'')
     [''extras'' \<mapsto> Lst [''a'', ''b'']] templates \<noteq> Inr (RBool True)
   \<and> (Marker X (marker_text ''extra'' ''=='' ''a'') = Inr ev
        \<and> ev [''extra'' \<mapsto> Str ''a''] = Inr True
        \<and> ev [''extra'' \<mapsto> Str ''b''] = Inr False \<longrightarrow>
      simplify_marker_to_rpm_condition X (Leaf ''extra'' ''=='' ''a'')
        [''extra'' \<mapsto> Lst [''a'', ''b'']] templates = Inl (UnsupportedMarker ''extra''))"
proof (intro conjI impI)
  show r: "simplify_marker_to_rpm_condition X (Leaf ''extra'' ''=='' ''a'')
     [''extras'' \<mapsto> Lst [''a'', ''b'']] templates = Inl (UnsupportedMarker ''extra'')"
    by (simp add: simplify_leaf_def single_version marker_package_def)
  show "simplify_marker_to_rpm_condition X (Leaf ''extra'' ''=='' ''a'')
     [''extras'' \<mapsto> Lst [''a'', ''b'']] templates \<noteq> Inr (RBool True)"
    unfolding r by simp
  show "simplify_marker_to_rpm_condition X (Leaf ''extra'' ''=='' ''a'')
        [''extra'' \<mapsto> Lst [''a'', ''b'']] templates = Inl (UnsupportedMarker ''extra'')"
    if "Marker X (marker_text ''extra'' ''=='' ''a'') = Inr ev
        \<and> ev [''extra'' \<mapsto> Str ''a''] = Inr True
        \<and> ev [''extra'' \<mapsto> Str ''b''] = Inr False"
    using that by (intro extra_keyed_mixed [where ev = ev]) simp_all
qed

theorem extra_marker_raises_witness:
  "simplify_marker_to_rpm_condition sample_externals (Leaf ''extra'' ''=='' ''a'')
     [''extras'' \<mapsto> Lst [''a'', ''b'']] sample_templates = Inl (UnsupportedMarker ''extra'')
   \<and> simplify_marker_to_rpm_condition sample_externals (Leaf ''extra'' ''=='' ''a'')
     [''extra'' \<mapsto> Lst [''a'', ''b'']] sample_templates = Inl (UnsupportedMarker ''extra'')"
  using extra_marker_raises [where X = sample_externals and templates = sample_templates
      and ev = "\<lambda>env. Inr (env ''extra'' = Some (Str ''a''))"]
  by (simp add: sample_Marker_extra)

end
